theory Spec2Isabelle
  imports Main "HOL-Library.AList" "HOL-Library.Word"
begin

section \<open>SSE to WebSocket protocol converter (sse\_to\_ws\_proxy.py)\<close>

text \<open>
  A shallow embedding of the class \<open>SSEToWebSocketProxy\<close>: the event parser
  \<open>_parse_sse_event\<close>, the stream loop \<open>_handle_sse_stream\<close> and the request
  forwarder \<open>_forward_to_sse\<close>.

  A Python \<open>str\<close> is a sequence of Unicode code points, so text is a list of code points
  (\<open>nat\<close>); a \<open>bytes\<close> object is a list of 8-bit words. A literal of the source is written
  \<open>utext ''data:''\<close>.
\<close>

subsection \<open>Text and bytes\<close>

type_synonym str = "nat list"
type_synonym byte = "8 word"

abbreviation (input) utext :: "string \<Rightarrow> str" where
  "utext s \<equiv> map of_char s"

abbreviation (input) ubytes :: "string \<Rightarrow> byte list" where
  "ubytes s \<equiv> map of_char s"

text \<open>
  \<open>str.strip()\<close> without argument removes leading and trailing whitespace, the code
  points for which \<open>str.isspace\<close> holds.
\<close>

definition isspace :: "nat \<Rightarrow> bool" where
  "isspace c \<longleftrightarrow>
     (9 \<le> c \<and> c \<le> 13) \<or> (28 \<le> c \<and> c \<le> 32) \<or> c = 133 \<or> c = 160 \<or> c = 5760 \<or>
     (8192 \<le> c \<and> c \<le> 8202) \<or> c = 8232 \<or> c = 8233 \<or> c = 8239 \<or> c = 8287 \<or> c = 12288"

definition strip :: "str \<Rightarrow> str" where
  "strip s = rev (dropWhile isspace (rev (dropWhile isspace s)))"

definition startswith :: "str \<Rightarrow> str \<Rightarrow> bool" where
  "startswith s p \<longleftrightarrow> take (length p) s = p"

text \<open>\<open>s.split("\n")\<close>: the pieces between line feeds, empty pieces included.\<close>

fun split_nl :: "str \<Rightarrow> str list" where
  "split_nl [] = [[]]"
| "split_nl (c # cs) =
     (if c = 10 then [] # split_nl cs
      else (case split_nl cs of [] \<Rightarrow> [[c]] | l # ls \<Rightarrow> (c # l) # ls))"

text \<open>\<open>"\n".join(lines)\<close>\<close>

fun join_nl :: "str list \<Rightarrow> str" where
  "join_nl [] = []"
| "join_nl [l] = l"
| "join_nl (l # ls) = l @ 10 # join_nl ls"

text \<open>
  \<open>buffer.split("\n\n", 1)\<close> cuts at the first occurrence of two line feeds;
  \<open>None\<close> stands for \<open>"\n\n" not in buffer\<close>.
\<close>

fun split_nn :: "str \<Rightarrow> (str \<times> str) option" where
  "split_nn (a # b # cs) =
     (if a = 10 \<and> b = 10 then Some ([], cs)
      else (case split_nn (b # cs) of None \<Rightarrow> None | Some (h, t) \<Rightarrow> Some (a # h, t)))"
| "split_nn _ = None"

subsection \<open>JSON values\<close>

text \<open>
  The values \<open>json.loads\<close> returns and \<open>json.dumps\<close> accepts. A \<open>dict\<close> keeps its
  keys in insertion order: an association list, written with \<open>AList.update\<close>, which
  replaces the value of a key in place and appends a new key, as a Python \<open>dict\<close> does.
  A \<open>float\<close> is kept as the text of its literal: the rounding to a double is not
  modelled, so two literals of one float are two values here. No property below is about
  a float.
\<close>

datatype json =
    JNull
  | JBool bool
  | JInt int
  | JFloat str
  | JString str
  | JArray "json list"
  | JObject "(str \<times> json) list"

text \<open>
  The exceptions the code meets. \<open>json.loads\<close> ends in one of three ways: it returns a
  value, it raises \<open>JSONDecodeError\<close> (the one exception the two call sites catch), or it
  raises something else, which the call sites let through: \<open>ValueError\<close> for an integer
  literal beyond the digit limit of the interpreter and \<open>RecursionError\<close> for nesting
  beyond its recursion limit. An exception carries the text \<open>str(e)\<close> gives.
\<close>

datatype exn =
    ValueError str
  | RecursionError str
  | ClientError str
  | ConnectionResetError

datatype 'a attempt = Done 'a | DecodeError | Raised exn

type_synonym loads = "str \<Rightarrow> json attempt"

subsection \<open>\<open>_parse_sse_event\<close>\<close>

type_synonym event = "(str \<times> json) list"

text \<open>One pass of the loop over the lines: the state is \<open>(event, data_lines)\<close>.\<close>

definition parse_line :: "event \<times> str list \<Rightarrow> str \<Rightarrow> event \<times> str list" where
  "parse_line st raw =
     (let event = fst st; data_lines = snd st; line = strip raw in
      if line = [] then st
      else if startswith line (utext ''data:'') then
        (event, data_lines @ [strip (drop 5 line)])
      else if startswith line (utext ''event:'') then
        (AList.update (utext ''event'') (JString (strip (drop 6 line))) event, data_lines)
      else if startswith line (utext ''id:'') then
        (AList.update (utext ''id'') (JString (strip (drop 3 line))) event, data_lines)
      else if startswith line (utext ''retry:'') then
        (AList.update (utext ''retry'') (JString (strip (drop 6 line))) event, data_lines)
      else if \<not> startswith line (utext '':'') then
        (event, data_lines @ [line])
      else st)"

definition parse_lines :: "str \<Rightarrow> event \<times> str list" where
  "parse_lines event_str = foldl parse_line ([], []) (split_nl event_str)"

text \<open>The last line of the function: \<open>return event if event else None\<close>.\<close>

definition event_or_none :: "event \<Rightarrow> event option" where
  "event_or_none event = (if event \<noteq> [] then Some event else None)"

text \<open>
  The result is the exception that leaves the function, or what the function returns:
  an Event or \<open>None\<close>.
\<close>

definition parse_sse_event :: "loads \<Rightarrow> str \<Rightarrow> exn + event option" where
  "parse_sse_event loads event_str =
     (if strip event_str = [] then Inr None
      else
        let st = parse_lines event_str; event = fst st; data_lines = snd st in
        if data_lines \<noteq> [] then
          (let data_str = join_nl data_lines in
           case loads data_str of
             Done v \<Rightarrow> Inr (event_or_none (AList.update (utext ''data'') v event))
           | DecodeError \<Rightarrow>
               Inr (event_or_none (AList.update (utext ''data'') (JString data_str) event))
           | Raised e \<Rightarrow> Inl e)
        else Inr (event_or_none event))"

subsection \<open>\<open>bytes.decode("utf-8", errors=...)\<close>\<close>

text \<open>
  The decoder of the Python runtime, which the stream loop calls on every chunk. It reads
  the bytes from left to right; each step yields a code point (\<open>Some c\<close>) or reports one
  decoding error (\<open>None\<close>) that covers the bytes it could not use: an invalid start byte,
  the valid prefix of a sequence whose next byte is no continuation byte, or a sequence
  cut off by the end of the input. The error handler \<open>ignore\<close> drops the bytes of an
  error, \<open>replace\<close> puts U+FFFD in their place.
\<close>

definition is_cont :: "nat \<Rightarrow> bool" where
  "is_cont b \<longleftrightarrow> 128 \<le> b \<and> b < 192"

text \<open>
  The second byte of a three-byte and of a four-byte sequence is refused when it is no
  continuation byte, or when the pair would encode an overlong form, a surrogate or a
  code point beyond U+10FFFF.
\<close>

definition bad2_3 :: "nat \<Rightarrow> nat \<Rightarrow> bool" where
  "bad2_3 b b2 =
     (if is_cont b2 then (if b2 < 160 then b = 224 else b = 237) else True)"

definition bad2_4 :: "nat \<Rightarrow> nat \<Rightarrow> bool" where
  "bad2_4 b b2 =
     (if is_cont b2 then (if b2 < 144 then b = 240 else b = 244) else True)"

fun utf8_scan :: "nat list \<Rightarrow> nat option list" where
  "utf8_scan [] = []"
| "utf8_scan (b # bs) =
     (if b < 128 then Some b # utf8_scan bs
      else if b < 194 then None # utf8_scan bs
      else if b < 224 then
        (case bs of
           [] \<Rightarrow> [None]
         | b2 # r \<Rightarrow>
             if is_cont b2 then Some ((b - 192) * 64 + (b2 - 128)) # utf8_scan r
             else None # utf8_scan bs)
      else if b < 240 then
        (case bs of
           [] \<Rightarrow> [None]
         | b2 # r2 \<Rightarrow>
             if bad2_3 b b2 then None # utf8_scan bs
             else
               (case r2 of
                  [] \<Rightarrow> [None]
                | b3 # r \<Rightarrow>
                    if is_cont b3 then
                      Some ((b - 224) * 4096 + (b2 - 128) * 64 + (b3 - 128)) # utf8_scan r
                    else None # utf8_scan r2))
      else if b < 245 then
        (case bs of
           [] \<Rightarrow> [None]
         | b2 # r2 \<Rightarrow>
             if bad2_4 b b2 then None # utf8_scan bs
             else
               (case r2 of
                  [] \<Rightarrow> [None]
                | b3 # r3 \<Rightarrow>
                    if \<not> is_cont b3 then None # utf8_scan r2
                    else
                      (case r3 of
                         [] \<Rightarrow> [None]
                       | b4 # r \<Rightarrow>
                           if is_cont b4 then
                             Some ((b - 240) * 262144 + (b2 - 128) * 4096
                                   + (b3 - 128) * 64 + (b4 - 128)) # utf8_scan r
                           else None # utf8_scan r3)))
      else None # utf8_scan bs)"

datatype errors = Ignore | Replace

definition decode_utf8 :: "errors \<Rightarrow> byte list \<Rightarrow> str" where
  "decode_utf8 errors chunk =
     concat (map (\<lambda>t. case t of
                        Some c \<Rightarrow> [c]
                      | None \<Rightarrow> (case errors of Ignore \<Rightarrow> [] | Replace \<Rightarrow> [65533]))
                 (utf8_scan (map unat chunk)))"

subsection \<open>The WebSocket connection\<close>

text \<open>
  Of the connection the code reads \<open>ws.closed\<close> and calls \<open>ws.send_json\<close> and
  \<open>ws.send_str\<close>. The state is the flag and the frames delivered so far. Writing to a
  closed connection raises in the library (\<open>Cannot write to closing transport\<close>) and
  delivers nothing.
\<close>

datatype frame = JsonFrame json | TextFrame str

record ws =
  ws_closed :: bool
  ws_sent :: "frame list"

definition exn_str :: "exn \<Rightarrow> str" where
  "exn_str e =
     (case e of
        ValueError m \<Rightarrow> m
      | RecursionError m \<Rightarrow> m
      | ClientError m \<Rightarrow> m
      | ConnectionResetError \<Rightarrow> utext ''Cannot write to closing transport'')"

type_synonym 'a result = "(exn + 'a) \<times> ws"

definition send_frame :: "ws \<Rightarrow> frame \<Rightarrow> unit result" where
  "send_frame w f =
     (if ws_closed w then (Inl ConnectionResetError, w)
      else (Inr (), w\<lparr>ws_sent := ws_sent w @ [f]\<rparr>))"

definition send_json :: "ws \<Rightarrow> json \<Rightarrow> unit result" where
  "send_json w v = send_frame w (JsonFrame v)"

definition send_str :: "ws \<Rightarrow> str \<Rightarrow> unit result" where
  "send_str w s = send_frame w (TextFrame s)"

subsection \<open>\<open>_handle_sse_stream\<close>\<close>

text \<open>The inner loop \<open>while "\n\n" in buffer\<close>; it returns the buffer it leaves.\<close>

function drain :: "loads \<Rightarrow> ws \<Rightarrow> str \<Rightarrow> str result" where
  "drain loads w buffer =
     (case split_nn buffer of
        None \<Rightarrow> (Inr buffer, w)
      | Some (event_str, rest) \<Rightarrow>
          (case parse_sse_event loads event_str of
             Inl e \<Rightarrow> (Inl e, w)
           | Inr None \<Rightarrow> drain loads w rest
           | Inr (Some event_data) \<Rightarrow>
               (case send_json w (JObject event_data) of
                  (Inl e, w') \<Rightarrow> (Inl e, w')
                | (Inr _, w') \<Rightarrow> drain loads w' rest)))"
  by pat_completeness auto
termination
proof (relation "measure (\<lambda>(loads, w, buffer). length buffer)")
  have shorter: "split_nn s = Some (h, t) \<Longrightarrow> length t < length s" for s h t
    by (induction s arbitrary: h rule: split_nn.induct) (auto split: if_splits option.splits)
  show "wf (measure (\<lambda>(loads, w, buffer). length buffer))"
    by simp
  show "((loads, w, rest), (loads, w, buffer)) \<in> measure (\<lambda>(loads, w, buffer). length buffer)"
    if "split_nn buffer = Some x2" "(event_str, rest) = x2"
    for loads :: loads and w :: ws and buffer x2 event_str rest
    using that shorter [of buffer event_str rest] by simp
  show "((loads, w', rest), (loads, w, buffer)) \<in> measure (\<lambda>(loads, w, buffer). length buffer)"
    if "split_nn buffer = Some x2" "(event_str, rest) = x2"
    for loads :: loads and w w' :: ws and buffer x2 event_str rest
    using that shorter [of buffer event_str rest] by simp
qed

text \<open>
  What \<open>response.content.iter_any()\<close> delivers, in order: the chunks of the body, and
  between them the moments at which the client connection closes while the loop waits
  for the next chunk.
\<close>

datatype body_item = Chunk "byte list" | Close

fun stream_loop :: "loads \<Rightarrow> ws \<Rightarrow> str \<Rightarrow> body_item list \<Rightarrow> str result" where
  "stream_loop loads w buffer [] = (Inr buffer, w)"
| "stream_loop loads w buffer (Close # items) =
     stream_loop loads (w\<lparr>ws_closed := True\<rparr>) buffer items"
| "stream_loop loads w buffer (Chunk chunk # items) =
     (if ws_closed w then (Inr buffer, w)
      else
        (case drain loads w (buffer @ decode_utf8 Ignore chunk) of
           (Inl e, w') \<Rightarrow> (Inl e, w')
         | (Inr buffer', w') \<Rightarrow> stream_loop loads w' buffer' items))"

definition handle_sse_stream :: "loads \<Rightarrow> ws \<Rightarrow> body_item list \<Rightarrow> unit result" where
  "handle_sse_stream loads w content =
     (case stream_loop loads w [] content of
        (Inl e, w') \<Rightarrow> (Inl e, w')
      | (Inr buffer, w') \<Rightarrow>
          if strip buffer \<noteq> [] then
            (case parse_sse_event loads buffer of
               Inl e \<Rightarrow> (Inl e, w')
             | Inr (Some event_data) \<Rightarrow> send_json w' (JObject event_data)
             | Inr None \<Rightarrow> (Inr (), w'))
          else (Inr (), w'))"

subsection \<open>\<open>json.loads\<close>\<close>

text \<open>
  The decoder of the Python runtime (CPython 3.11), for a \<open>str\<close> argument and default
  options: the scanner with its string, number, array and object readers. Two limits of
  the interpreter decide where it raises something other than \<open>JSONDecodeError\<close>: the
  digit limit of the conversion of a decimal literal to \<open>int\<close>
  (\<open>sys.get_int_max_str_digits()\<close>, 4300 unless changed, 0 for no limit), and the number
  of nested calls the recursion limit still allows when the decoder is entered; the
  scanner takes one of them for every array and object it enters.

  The readers call each other; their first argument bounds the number of these calls and
  \<open>json_loads\<close> starts with a bound beyond twice the length of the text. The functions of
  the proxy take the decoder as a parameter \<open>loads\<close>.
\<close>

record runtime =
  max_str_digits :: nat
  recursion_left :: nat

definition json_ws :: "nat \<Rightarrow> bool" where
  "json_ws c \<longleftrightarrow> c = 32 \<or> c = 9 \<or> c = 10 \<or> c = 13"

definition skip_ws :: "str \<Rightarrow> str" where
  "skip_ws s = dropWhile json_ws s"

definition is_digit :: "nat \<Rightarrow> bool" where
  "is_digit c \<longleftrightarrow> 48 \<le> c \<and> c \<le> 57"

definition hex_val :: "nat \<Rightarrow> nat option" where
  "hex_val c =
     (if 48 \<le> c \<and> c \<le> 57 then Some (c - 48)
      else if 97 \<le> c \<and> c \<le> 102 then Some (c - 87)
      else if 65 \<le> c \<and> c \<le> 70 then Some (c - 55)
      else None)"

fun hex4 :: "str \<Rightarrow> nat option" where
  "hex4 [a, b, c, d] =
     (case (hex_val a, hex_val b, hex_val c, hex_val d) of
        (Some x, Some y, Some z, Some u) \<Rightarrow> Some (((x * 16 + y) * 16 + z) * 16 + u)
      | _ \<Rightarrow> None)"
| "hex4 _ = None"

definition unescape :: "nat \<Rightarrow> nat option" where
  "unescape e =
     (if e = 34 \<or> e = 92 \<or> e = 47 then Some e
      else if e = 98 then Some 8
      else if e = 102 then Some 12
      else if e = 110 then Some 10
      else if e = 114 then Some 13
      else if e = 116 then Some 9
      else None)"

definition cons_char :: "nat \<Rightarrow> (str \<times> str) option \<Rightarrow> (str \<times> str) option" where
  "cons_char c r = (case r of None \<Rightarrow> None | Some (t, rest) \<Rightarrow> Some (c # t, rest))"

text \<open>The string reader, called behind the opening quote; strict mode.\<close>

fun scanstring :: "str \<Rightarrow> (str \<times> str) option" where
  "scanstring [] = None"
| "scanstring (c # cs) =
     (if c = 34 then Some ([], cs)
      else if c = 92 then
        (case cs of
           [] \<Rightarrow> None
         | e # r \<Rightarrow>
             if e = 117 then
               (if length r < 5 then None
                else
                  (case hex4 (take 4 r) of
                     None \<Rightarrow> None
                   | Some u \<Rightarrow>
                       if 55296 \<le> u \<and> u \<le> 56319 \<and> 11 \<le> length r
                          \<and> take 2 (drop 4 r) = [92, 117] then
                         (case hex4 (take 4 (drop 6 r)) of
                            None \<Rightarrow> None
                          | Some u2 \<Rightarrow>
                              if 56320 \<le> u2 \<and> u2 \<le> 57343 then
                                cons_char (65536 + (u - 55296) * 1024 + (u2 - 56320))
                                  (scanstring (drop 10 r))
                              else cons_char u (scanstring (drop 4 r)))
                       else cons_char u (scanstring (drop 4 r))))
             else
               (case unescape e of
                  None \<Rightarrow> None
                | Some x \<Rightarrow> cons_char x (scanstring r)))
      else if c \<le> 31 then None
      else cons_char c (scanstring cs))"

definition digits_val :: "str \<Rightarrow> nat" where
  "digits_val ds = foldl (\<lambda>a d. a * 10 + (d - 48)) 0 ds"

text \<open>Decimal digits of a number, for the text of an exception.\<close>

fun str_of_nat :: "nat \<Rightarrow> str" where
  "str_of_nat n = (if n < 10 then [48 + n] else str_of_nat (n div 10) @ [48 + n mod 10])"

definition digit_limit_error :: "nat \<Rightarrow> nat \<Rightarrow> exn" where
  "digit_limit_error limit n =
     ValueError (utext ''Exceeds the limit ('' @ str_of_nat limit
       @ utext '' digits) for integer string conversion: value has '' @ str_of_nat n
       @ utext '' digits; use sys.set_int_max_str_digits() to increase the limit'')"

definition recursion_error :: "string \<Rightarrow> exn" where
  "recursion_error what =
     RecursionError (utext ''maximum recursion depth exceeded while decoding a JSON ''
       @ utext what @ utext '' from a unicode string'')"

text \<open>
  The number reader: an \<open>int\<close> unless a fraction or an exponent follows. The conversion
  of the digits to \<open>int\<close> raises \<open>ValueError\<close> beyond the digit limit.
\<close>

definition match_number :: "nat \<Rightarrow> str \<Rightarrow> (json \<times> str) attempt" where
  "match_number limit s =
     (let neg = (case s of [] \<Rightarrow> False | c # cs \<Rightarrow> c = 45);
          s1 = (if neg then tl s else s)
      in case s1 of
           [] \<Rightarrow> DecodeError
         | c # cs \<Rightarrow>
             if \<not> is_digit c then DecodeError
             else
               let int_digits = (if c = 48 then [c] else c # takeWhile is_digit cs);
                   s2 = drop (length int_digits) s1;
                   frac =
                     (case s2 of
                        d # e # r \<Rightarrow>
                          if d = 46 \<and> is_digit e then d # e # takeWhile is_digit r else []
                      | _ \<Rightarrow> []);
                   s3 = drop (length frac) s2;
                   expo =
                     (case s3 of
                        [] \<Rightarrow> []
                      | e # r \<Rightarrow>
                          if (e = 101 \<or> e = 69) \<and> r \<noteq> [] then
                            (let sign =
                                   (case r of
                                      sg # r' \<Rightarrow>
                                        if (sg = 45 \<or> sg = 43) \<and> r' \<noteq> [] then [sg] else []
                                    | [] \<Rightarrow> []);
                                 ds = takeWhile is_digit (drop (length sign) r)
                             in if ds \<noteq> [] then e # sign @ ds else [])
                          else []);
                   s4 = drop (length expo) s3
               in if frac = [] \<and> expo = [] then
                    (if 0 < limit \<and> limit < length int_digits then
                       Raised (digit_limit_error limit (length int_digits))
                     else
                       Done (JInt ((if neg then - 1 else 1) * int (digits_val int_digits)), s4))
                  else
                    Done (JFloat ((if neg then [45] else []) @ int_digits @ frac @ expo), s4))"

text \<open>
  \<open>scan_once bound limit depth s\<close>: \<open>depth\<close> is the number of arrays and objects that may
  still be entered.
\<close>

fun scan_once :: "nat \<Rightarrow> nat \<Rightarrow> nat \<Rightarrow> str \<Rightarrow> (json \<times> str) attempt"
  and parse_array :: "nat \<Rightarrow> nat \<Rightarrow> nat \<Rightarrow> json list \<Rightarrow> str \<Rightarrow> (json \<times> str) attempt"
  and parse_object ::
    "nat \<Rightarrow> nat \<Rightarrow> nat \<Rightarrow> (str \<times> json) list \<Rightarrow> str \<Rightarrow> (json \<times> str) attempt"
where
  "scan_once 0 limit depth s = DecodeError"
| "scan_once (Suc n) limit depth s =
     (case s of
        [] \<Rightarrow> DecodeError
      | c # cs \<Rightarrow>
          if c = 34 then
            (case scanstring cs of None \<Rightarrow> DecodeError | Some (t, r) \<Rightarrow> Done (JString t, r))
          else if c = 123 then
            (if depth = 0 then Raised (recursion_error ''object'')
             else
               (case skip_ws cs of
                  [] \<Rightarrow> DecodeError
                | d # ds \<Rightarrow>
                    if d = 125 then Done (JObject [], ds)
                    else parse_object n limit (depth - 1) [] (d # ds)))
          else if c = 91 then
            (if depth = 0 then Raised (recursion_error ''array'')
             else
               (case skip_ws cs of
                  [] \<Rightarrow> DecodeError
                | d # ds \<Rightarrow>
                    if d = 93 then Done (JArray [], ds)
                    else parse_array n limit (depth - 1) [] (d # ds)))
          else if startswith s (utext ''null'') then Done (JNull, drop 4 s)
          else if startswith s (utext ''true'') then Done (JBool True, drop 4 s)
          else if startswith s (utext ''false'') then Done (JBool False, drop 5 s)
          else if startswith s (utext ''NaN'') then Done (JFloat (utext ''NaN''), drop 3 s)
          else if startswith s (utext ''Infinity'') then
            Done (JFloat (utext ''Infinity''), drop 8 s)
          else if startswith s (utext ''-Infinity'') then
            Done (JFloat (utext ''-Infinity''), drop 9 s)
          else match_number limit s)"
| "parse_array 0 limit depth acc s = DecodeError"
| "parse_array (Suc n) limit depth acc s =
     (case scan_once n limit depth s of
        DecodeError \<Rightarrow> DecodeError
      | Raised e \<Rightarrow> Raised e
      | Done (v, r) \<Rightarrow>
          (case skip_ws r of
             [] \<Rightarrow> DecodeError
           | d # ds \<Rightarrow>
               if d = 93 then Done (JArray (acc @ [v]), ds)
               else if d = 44 then parse_array n limit depth (acc @ [v]) (skip_ws ds)
               else DecodeError))"
| "parse_object 0 limit depth acc s = DecodeError"
| "parse_object (Suc n) limit depth acc s =
     (case s of
        [] \<Rightarrow> DecodeError
      | q # s' \<Rightarrow>
          if q \<noteq> 34 then DecodeError
          else
            (case scanstring s' of
               None \<Rightarrow> DecodeError
             | Some (key, r) \<Rightarrow>
                 (case skip_ws r of
                    [] \<Rightarrow> DecodeError
                  | col # r1 \<Rightarrow>
                      if col \<noteq> 58 then DecodeError
                      else
                        (case scan_once n limit depth (skip_ws r1) of
                           DecodeError \<Rightarrow> DecodeError
                         | Raised e \<Rightarrow> Raised e
                         | Done (v, r2) \<Rightarrow>
                             (case skip_ws r2 of
                                [] \<Rightarrow> DecodeError
                              | d # ds \<Rightarrow>
                                  if d = 125 then Done (JObject (AList.update key v acc), ds)
                                  else if d = 44 then
                                    parse_object n limit depth (AList.update key v acc)
                                      (skip_ws ds)
                                  else DecodeError)))))"

definition json_loads :: "runtime \<Rightarrow> loads" where
  "json_loads rt s =
     (if startswith s [65279] then DecodeError
      else
        (case scan_once (2 * length s + 1) (max_str_digits rt) (recursion_left rt) (skip_ws s) of
           DecodeError \<Rightarrow> DecodeError
         | Raised e \<Rightarrow> Raised e
         | Done (v, r) \<Rightarrow> if skip_ws r = [] then Done v else DecodeError))"

text \<open>
  The interpreter with its default limits: at most 4300 digits, and a recursion limit of
  1000 of which the frames of the running server leave a part; the part is taken as 900.
\<close>

definition cpython :: runtime where
  "cpython = \<lparr>max_str_digits = 4300, recursion_left = 900\<rparr>"

subsection \<open>\<open>_forward_to_sse\<close>\<close>

text \<open>
  The arguments of \<open>session.post\<close>, and of the response what the code reads: the status,
  the \<open>Content-Type\<close> header if there is one, the body as \<open>response.text()\<close> returns it
  and the body as \<open>response.content.iter_any()\<close> delivers it. The upstream service is a
  function from the request to the response, or to the \<open>aiohttp.ClientError\<close> raised.
\<close>

record request =
  req_url :: str
  req_json :: "json option"
  req_data :: "str option"
  req_headers :: "(str \<times> str) list"

record response =
  status :: int
  content_type :: "str option"
  body_text :: str
  content :: "body_item list"

type_synonym upstream = "request \<Rightarrow> exn + response"

fun contains :: "str \<Rightarrow> str \<Rightarrow> bool" where
  "contains [] sub = (sub = [])"
| "contains (c # cs) sub = (if startswith (c # cs) sub then True else contains cs sub)"

text \<open>
  Lines 49 to 52: the payload is the decoded value, or the text itself after
  \<open>JSONDecodeError\<close>; any other exception of \<open>json.loads\<close> leaves the inner \<open>try\<close>.
\<close>

definition decode_payload :: "loads \<Rightarrow> str \<Rightarrow> exn + json" where
  "decode_payload loads data =
     (case loads data of
        Done v \<Rightarrow> Inr v
      | DecodeError \<Rightarrow> Inr (JString data)
      | Raised e \<Rightarrow> Inl e)"

definition post_headers :: "(str \<times> str) list" where
  "post_headers = [(utext ''Content-Type'', utext ''application/json''),
                   (utext ''Accept'', utext ''text/event-stream'')]"

definition post_request :: "str \<Rightarrow> json \<Rightarrow> request" where
  "post_request sse_url payload =
     \<lparr>req_url = sse_url,
      req_json = (case payload of JObject d \<Rightarrow> Some payload | _ \<Rightarrow> None),
      req_data = (case payload of JString t \<Rightarrow> Some t | _ \<Rightarrow> None),
      req_headers = post_headers\<rparr>"

definition status_error_frame :: "response \<Rightarrow> json" where
  "status_error_frame r =
     JObject [(utext ''error'', JBool True),
              (utext ''status'', JInt (status r)),
              (utext ''message'', JString (body_text r))]"

definition exception_frame :: "exn \<Rightarrow> json" where
  "exception_frame e =
     JObject [(utext ''error'', JBool True), (utext ''message'', JString (exn_str e))]"

definition handle_response :: "loads \<Rightarrow> ws \<Rightarrow> response \<Rightarrow> unit result" where
  "handle_response loads w r =
     (if status r \<noteq> 200 then send_json w (status_error_frame r)
      else if contains (case content_type r of None \<Rightarrow> [] | Some t \<Rightarrow> t)
                (utext ''text/event-stream'')
      then handle_sse_stream loads w (content r)
      else send_str w (body_text r))"

text \<open>
  The \<open>POST\<close> and what follows it inside the \<open>try\<close>: the request goes to the upstream
  service, and its response, if one comes, is handled.
\<close>

definition post :: "loads \<Rightarrow> upstream \<Rightarrow> ws \<Rightarrow> request \<Rightarrow> unit result" where
  "post loads upstream w req =
     (case upstream req of
        Inl e \<Rightarrow> (Inl e, w)
      | Inr r \<Rightarrow> handle_response loads w r)"

text \<open>
  The two \<open>except\<close> clauses of the outer \<open>try\<close> send the same frame; an exception raised
  by that send leaves the function.
\<close>

definition except_clauses :: "unit result \<Rightarrow> unit result" where
  "except_clauses res =
     (case res of
        (Inl e, w') \<Rightarrow> send_json w' (exception_frame e)
      | (Inr u, w') \<Rightarrow> (Inr (), w'))"

definition forward_to_sse :: "loads \<Rightarrow> str \<Rightarrow> upstream \<Rightarrow> ws \<Rightarrow> str \<Rightarrow> unit result" where
  "forward_to_sse loads sse_url upstream w data =
     except_clauses
       (case decode_payload loads data of
          Inl e \<Rightarrow> (Inl e, w)
        | Inr payload \<Rightarrow> post loads upstream w (post_request sse_url payload))"

section \<open>Properties\<close>

subsection \<open>Auxiliary facts\<close>

declare drain.simps [simp del]
declare str_of_nat.simps [simp del]



lemma parse_line_blank: "strip l = [] \<Longrightarrow> parse_line st l = st"
  by (simp add: parse_line_def)

lemma parse_line_comment:
  assumes "startswith (strip l) (utext '':'')"
  shows "parse_line st l = st"
proof -
  from assms obtain r where r: "strip l = 58 # r"
    by (cases "strip l") (auto simp: startswith_def)
  show ?thesis
    by (simp add: parse_line_def r startswith_def)
qed

lemma foldl_parse_line_skip:
  "\<forall>l \<in> set ls. strip l = [] \<or> startswith (strip l) (utext '':'') \<Longrightarrow>
   foldl parse_line st ls = st"
  by (induction ls arbitrary: st) (auto simp: parse_line_blank parse_line_comment)






lemma split_nn_shorter: "split_nn s = Some (h, t) \<Longrightarrow> length t < length s"
  by (induction s arbitrary: h rule: split_nn.induct) (auto split: if_splits option.splits)

lemma split_nn_append: "split_nn s = Some (h, t) \<Longrightarrow> split_nn (s @ c) = Some (h, t @ c)"
  by (induction s arbitrary: h rule: split_nn.induct) (auto split: if_splits option.splits)

lemma drain_None: "split_nn b = None \<Longrightarrow> drain loads w b = (Inr b, w)"
  by (subst drain.simps) simp

lemma drain_raise:
  "split_nn b = Some (h, t) \<Longrightarrow> parse_sse_event loads h = Inl e \<Longrightarrow>
   drain loads w b = (Inl e, w)"
  by (subst drain.simps) simp

lemma drain_skip:
  "split_nn b = Some (h, t) \<Longrightarrow> parse_sse_event loads h = Inr None \<Longrightarrow>
   drain loads w b = drain loads w t"
  by (subst drain.simps) simp

lemma drain_send:
  "split_nn b = Some (h, t) \<Longrightarrow> parse_sse_event loads h = Inr (Some ev) \<Longrightarrow>
   drain loads w b =
     (if ws_closed w then (Inl ConnectionResetError, w)
      else drain loads (w\<lparr>ws_sent := ws_sent w @ [JsonFrame (JObject ev)]\<rparr>) t)"
  by (subst drain.simps) (simp add: send_json_def send_frame_def)

text \<open>What the inner loop does with the first part of a buffer, it does with the whole.\<close>

lemma drain_append:
  "drain loads w (b @ c) =
     (case drain loads w b of
        (Inl e, w') \<Rightarrow> (Inl e, w')
      | (Inr r, w') \<Rightarrow> drain loads w' (r @ c))"
proof (induction "length b" arbitrary: b w rule: less_induct)
  case less
  show ?case
  proof (cases "split_nn b")
    case None
    then show ?thesis by (simp add: drain_None)
  next
    case (Some p)
    obtain h t where p: "split_nn b = Some (h, t)" using Some by (cases p) simp
    have lt: "length t < length b" using p by (rule split_nn_shorter)
    have pc: "split_nn (b @ c) = Some (h, t @ c)" using p by (rule split_nn_append)
    show ?thesis
    proof (cases "parse_sse_event loads h")
      case (Inl e)
      then show ?thesis using p pc by (simp add: drain_raise)
    next
      case (Inr res)
      show ?thesis
      proof (cases res)
        case None
        then show ?thesis using Inr p pc less.hyps [OF lt, of w] by (simp add: drain_skip)
      next
        case (Some ev)
        then show ?thesis
          using Inr p pc
            less.hyps [OF lt, of "w\<lparr>ws_sent := ws_sent w @ [JsonFrame (JObject ev)]\<rparr>"]
          by (simp add: drain_send)
      qed
    qed
  qed
qed

lemma drain_leftover: "drain loads w b = (Inr r, w') \<Longrightarrow> split_nn r = None \<and> ws_closed w' = ws_closed w"
proof (induction "length b" arbitrary: b w rule: less_induct)
  case less
  show ?case
  proof (cases "split_nn b")
    case None
    then show ?thesis using less.prems by (simp add: drain_None)
  next
    case (Some p)
    obtain h t where p: "split_nn b = Some (h, t)" using Some by (cases p) simp
    have lt: "length t < length b" using p by (rule split_nn_shorter)
    show ?thesis
    proof (cases "parse_sse_event loads h")
      case (Inl e)
      then show ?thesis using p less.prems by (simp add: drain_raise)
    next
      case (Inr res)
      show ?thesis
      proof (cases res)
        case None
        then show ?thesis using Inr p less.prems less.hyps [OF lt, of w] by (simp add: drain_skip)
      next
        case (Some ev)
        then show ?thesis
          using Inr p less.prems
            less.hyps [OF lt, of "w\<lparr>ws_sent := ws_sent w @ [JsonFrame (JObject ev)]\<rparr>"]
          by (simp add: drain_send split: if_splits)
      qed
    qed
  qed
qed

lemma stream_loop_chunks:
  "\<not> ws_closed w \<Longrightarrow> split_nn buf = None \<Longrightarrow>
   stream_loop loads w buf (map Chunk cs) =
   drain loads w (buf @ concat (map (decode_utf8 Ignore) cs))"
proof (induction cs arbitrary: w buf)
  case Nil
  then show ?case by (simp add: drain_None)
next
  case (Cons c cs)
  obtain res w' where d: "drain loads w (buf @ decode_utf8 Ignore c) = (res, w')"
    by (cases "drain loads w (buf @ decode_utf8 Ignore c)") simp
  have app: "drain loads w ((buf @ decode_utf8 Ignore c) @ concat (map (decode_utf8 Ignore) cs)) =
        (case drain loads w (buf @ decode_utf8 Ignore c) of
           (Inl e, w') \<Rightarrow> (Inl e, w')
         | (Inr r, w') \<Rightarrow> drain loads w' (r @ concat (map (decode_utf8 Ignore) cs)))"
    by (rule drain_append)
  show ?case
  proof (cases res)
    case (Inl e)
    then show ?thesis using Cons.prems(1) d app by simp
  next
    case (Inr r)
    then have "split_nn r = None" and "\<not> ws_closed w'"
      using d drain_leftover [of loads w "buf @ decode_utf8 Ignore c" r w'] Cons.prems(1)
      by simp_all
    then have "stream_loop loads w' r (map Chunk cs) =
               drain loads w' (r @ concat (map (decode_utf8 Ignore) cs))"
      using Cons.IH by blast
    then show ?thesis using Cons.prems(1) d app Inr by simp
  qed
qed

text \<open>
  Chunk-boundary invariance, where it holds: on an open connection, every split of a body
  on which decoding the pieces and decoding the whole agree gives the same result as the
  body in one chunk.
\<close>

lemma chunking_invariance:
  assumes "\<not> ws_closed w"
    and "decode_utf8 Ignore (concat chunks) = concat (map (decode_utf8 Ignore) chunks)"
  shows "handle_sse_stream loads w (map Chunk chunks) =
         handle_sse_stream loads w [Chunk (concat chunks)]"
proof -
  have "stream_loop loads w [] (map Chunk chunks) = stream_loop loads w [] (map Chunk [concat chunks])"
    using assms by (simp only: stream_loop_chunks [OF assms(1)] split_nn.simps) simp
  then show ?thesis by (simp add: handle_sse_stream_def)
qed

lemma utf8_scan_ascii: "\<forall>b \<in> set bs. b < 128 \<Longrightarrow> utf8_scan bs = map Some bs"
  by (induction bs) simp_all

lemma decode_utf8_ascii:
  assumes "\<forall>b \<in> set chunk. b < 128"
  shows "decode_utf8 errors chunk = map unat chunk"
proof -
  have "\<forall>b \<in> set (map unat chunk). b < 128"
    using assms by (auto simp: word_less_nat_alt)
  then have "utf8_scan (map unat chunk) = map Some (map unat chunk)"
    by (rule utf8_scan_ascii)
  then show ?thesis
    by (simp add: decode_utf8_def comp_def)
qed



subsection \<open>Evaluation at concrete inputs\<close>

text \<open>
  The decoder is evaluated by rewriting; the bound of the readers is a numeral there.
  The facts below are the values of \<open>json.loads\<close> on the texts of the examples.
\<close>

lemmas scan_once_num =
  scan_once.simps(2) [of "pred_numeral k" limit depth s, folded numeral_eq_Suc] for k limit depth s
lemmas parse_array_num =
  parse_array.simps(2) [of "pred_numeral k" limit depth a s, folded numeral_eq_Suc]
  for k limit depth a s
lemmas parse_object_num =
  parse_object.simps(2) [of "pred_numeral k" limit depth a s, folded numeral_eq_Suc]
  for k limit depth a s

lemmas json_eval = json_loads_def cpython_def startswith_def skip_ws_def json_ws_def
  scan_once_num parse_array_num parse_object_num
  match_number_def is_digit_def digits_val_def cons_char_def

lemmas event_eval = parse_sse_event_def event_or_none_def parse_lines_def parse_line_def
  strip_def isspace_def startswith_def Let_def

lemmas stream_eval = handle_sse_stream_def drain.simps decode_utf8_def is_cont_def
  bad2_3_def bad2_4_def send_json_def send_frame_def

lemma loads_array: "json_loads cpython (utext ''[1]'') = Done (JArray [JInt 1])"
  by (simp add: json_eval)

lemma loads_object:
  \<open>json_loads cpython (utext ''{"a":1}'') = Done (JObject [(utext ''a'', JInt 1)])\<close>
  by (simp add: json_eval)

lemma loads_string: \<open>json_loads cpython (utext ''"hi"'') = Done (JString (utext ''hi''))\<close>
  by (simp add: json_eval)


lemma loads_hello: \<open>json_loads cpython (utext ''hello'') = DecodeError\<close>
  by (simp add: json_eval)

lemma loads_empty: "json_loads cpython [] = DecodeError"
  by (simp add: json_eval)

lemma loads_e_acute: "json_loads cpython [233] = DecodeError"
  by (simp add: json_eval)

lemma loads_a: "json_loads cpython (utext ''a'') = DecodeError"
  by (simp add: json_eval)

lemma loads_x: "json_loads cpython (utext ''x'') = DecodeError"
  by (simp add: json_eval)

lemma loads_1: "json_loads cpython (utext ''1'') = Done (JInt 1)"
  by (simp add: json_eval)

lemma loads_2: "json_loads cpython (utext ''2'') = Done (JInt 2)"
  by (simp add: json_eval)

lemma loads_1_2: "json_loads cpython (utext ''1\<newline>2'') = DecodeError"
  by (simp add: json_eval)








text \<open>
  An exception of \<open>json.loads\<close> other than \<open>JSONDecodeError\<close> ends \<open>_forward_to_sse\<close>
  before the request: no request is posted and the frame of the \<open>except\<close> clauses is
  sent.
\<close>

lemma loads_true: "json_loads cpython (utext ''true'') = Done (JBool True)"
  by (simp add: json_eval)

lemma forward_decode_raises:
  "loads data = Raised e \<Longrightarrow>
   forward_to_sse loads sse_url upstream w data = send_json w (exception_frame e)"
  by (simp add: forward_to_sse_def decode_payload_def except_clauses_def)

lemmas forward_eval = forward_to_sse_def decode_payload_def post_request_def post_def
  except_clauses_def handle_response_def send_str_def send_json_def send_frame_def

subsection \<open>The stream loop and the chunks (C1, C4, C9)\<close>

text \<open>
  C1 (chunk-boundary invariance). The claim: feeding the chunks of a body one by one and
  then processing the remainder produces the same Events as feeding the whole body as one
  chunk, for every way of splitting it. The loop decodes each chunk on its own, so a split
  inside the two bytes of U+00E9 loses the character: the body \<open>data: \<close> U+00E9 followed by a
  blank line yields the Event with data U+00E9 as one chunk, and the Event with the empty
  data when the chunk boundary falls between the bytes 0xC3 and 0xA9. (Lemma
  \<open>chunking_invariance\<close> above: the invariance holds for every split on which decoding
  the pieces and decoding the whole agree.)
\<close>

theorem chunk_split_inside_character:
  "handle_sse_stream (json_loads cpython) \<lparr>ws_closed = False, ws_sent = []\<rparr>
     [Chunk (ubytes ''data: '' @ [195, 169, 10, 10])] =
   (Inr (), \<lparr>ws_closed = False,
             ws_sent = [JsonFrame (JObject [(utext ''data'', JString [233])])]\<rparr>)
   \<and> handle_sse_stream (json_loads cpython) \<lparr>ws_closed = False, ws_sent = []\<rparr>
     [Chunk (ubytes ''data: '' @ [195]), Chunk [169, 10, 10]] =
   (Inr (), \<lparr>ws_closed = False,
             ws_sent = [JsonFrame (JObject [(utext ''data'', JString [])])]\<rparr>)"
  by (simp add: stream_eval event_eval loads_e_acute loads_empty)

text \<open>
  C4 (no frame after closure is observed). The loop tests \<open>ws.closed\<close> once for each
  chunk and leaves the loop when it is set; the remainder of the buffer is then parsed and
  sent all the same. With the chunk \<open>data: a\<close>, the connection closing, and a second chunk:
  the loop stops at the second chunk with \<open>data: a\<close> in the buffer, the remainder parses to
  an Event, and the call of \<open>send_json\<close> on the closed connection raises.
\<close>

theorem send_after_close_observed:
  "stream_loop (json_loads cpython) \<lparr>ws_closed = False, ws_sent = []\<rparr> []
     [Chunk (ubytes ''data: a''), Close, Chunk (ubytes ''x'')] =
   (Inr (utext ''data: a''), \<lparr>ws_closed = True, ws_sent = []\<rparr>)
   \<and> parse_sse_event (json_loads cpython) (utext ''data: a'') =
     Inr (Some [(utext ''data'', JString (utext ''a''))])
   \<and> handle_sse_stream (json_loads cpython) \<lparr>ws_closed = False, ws_sent = []\<rparr>
     [Chunk (ubytes ''data: a''), Close, Chunk (ubytes ''x'')] =
   (Inl ConnectionResetError, \<lparr>ws_closed = True, ws_sent = []\<rparr>)"
  by (simp add: stream_eval event_eval loads_a [simplified])

text \<open>
  C9 (CRLF line endings). The delimiter the loop looks for is two line feeds. In a body
  with CRLF line endings a blank line is CR LF CR LF, which holds no two adjacent line
  feeds: no block is cut off while the body arrives, and the whole body is parsed as one
  block at the end. Two blocks \<open>data: 1\<close> and \<open>data: 2\<close> give one Event with CRLF and two
  Events with LF.
\<close>

theorem crlf_blocks_merged:
  "handle_sse_stream (json_loads cpython) \<lparr>ws_closed = False, ws_sent = []\<rparr>
     [Chunk (ubytes ''data: 1'' @ [13, 10, 13, 10] @ ubytes ''data: 2'' @ [13, 10, 13, 10])] =
   (Inr (), \<lparr>ws_closed = False,
             ws_sent = [JsonFrame (JObject [(utext ''data'', JString (utext ''1\<newline>2''))])]\<rparr>)
   \<and> handle_sse_stream (json_loads cpython) \<lparr>ws_closed = False, ws_sent = []\<rparr>
     [Chunk (ubytes ''data: 1'' @ [10, 10] @ ubytes ''data: 2'' @ [10, 10])] =
   (Inr (), \<lparr>ws_closed = False,
             ws_sent = [JsonFrame (JObject [(utext ''data'', JInt 1)]),
                        JsonFrame (JObject [(utext ''data'', JInt 2)])]\<rparr>)"
  by (simp add: stream_eval event_eval loads_1 [simplified] loads_2 [simplified]
      loads_1_2 [simplified])

subsection \<open>The request body (C2, C10)\<close>

text \<open>
  C2, the claim as stated fails: the text \<open>[1]\<close> decodes, to a list, and the request
  that goes out carries neither a JSON body nor a text body. The upstream service of the
  example answers with a plain body that tells which body the request had.
\<close>

theorem json_array_payload_counterexample:
  "json_loads cpython (utext ''[1]'') = Done (JArray [JInt 1])
   \<and> post_request (utext ''http://localhost:8080/api/sse'') (JArray [JInt 1]) =
       \<lparr>req_url = (utext ''http://localhost:8080/api/sse''), req_json = None, req_data = None, req_headers = post_headers\<rparr>
   \<and> forward_to_sse (json_loads cpython) (utext ''http://localhost:8080/api/sse'')
       (\<lambda>q. Inr \<lparr>status = 200, content_type = None,
                body_text = (case req_json q of
                               Some j \<Rightarrow> utext ''json body''
                             | None \<Rightarrow> (case req_data q of
                                          Some t \<Rightarrow> utext ''text body: '' @ t
                                        | None \<Rightarrow> utext ''no body'')),
                content = []\<rparr>)
       \<lparr>ws_closed = False, ws_sent = []\<rparr> (utext ''[1]'') =
     (Inr (), \<lparr>ws_closed = False, ws_sent = [TextFrame (utext ''no body'')]\<rparr>)"
  by (simp add: forward_eval loads_array [simplified])

text \<open>
  C2, amended: \<open>_forward_to_sse\<close> posts exactly one request, whose JSON body is the
  decoded object and which has no text body when the text decodes to a JSON object;
  whose text body is the raw text and which has no JSON body when \<open>json.loads\<close> raises
  \<open>JSONDecodeError\<close>; whose text body is the decoded string when the text decodes to a
  JSON string; and whatever the payload, the request never uses both modes. What the
  function does next is what it does with the answer to that request.
\<close>

theorem forward_request_body:
  "(\<forall>d. loads data = Done (JObject d) \<longrightarrow>
      forward_to_sse loads sse_url upstream w data =
        except_clauses (post loads upstream w
          \<lparr>req_url = sse_url, req_json = Some (JObject d), req_data = None,
           req_headers = post_headers\<rparr>))
   \<and> (loads data = DecodeError \<longrightarrow>
      forward_to_sse loads sse_url upstream w data =
        except_clauses (post loads upstream w
          \<lparr>req_url = sse_url, req_json = None, req_data = Some data,
           req_headers = post_headers\<rparr>))
   \<and> (\<forall>t. loads data = Done (JString t) \<longrightarrow>
      forward_to_sse loads sse_url upstream w data =
        except_clauses (post loads upstream w
          \<lparr>req_url = sse_url, req_json = None, req_data = Some t,
           req_headers = post_headers\<rparr>))
   \<and> (\<forall>payload. decode_payload loads data = Inr payload \<longrightarrow>
      forward_to_sse loads sse_url upstream w data =
        except_clauses (post loads upstream w (post_request sse_url payload))
      \<and> (req_json (post_request sse_url payload) = None
         \<or> req_data (post_request sse_url payload) = None))"
  by (auto simp: forward_to_sse_def decode_payload_def post_request_def
      split: attempt.splits json.splits)

theorem forward_request_body_witness:
  \<open>forward_to_sse (json_loads cpython) (utext ''http://localhost:8080/api/sse'')
       (\<lambda>q. Inr \<lparr>status = 200, content_type = None,
                body_text = (case req_json q of
                               Some j \<Rightarrow> utext ''json body''
                             | None \<Rightarrow> (case req_data q of
                                          Some t \<Rightarrow> utext ''text body: '' @ t
                                        | None \<Rightarrow> utext ''no body'')),
                content = []\<rparr>)
       \<lparr>ws_closed = False, ws_sent = []\<rparr> (utext ''{"a":1}'') =
     (Inr (), \<lparr>ws_closed = False, ws_sent = [TextFrame (utext ''json body'')]\<rparr>)
   \<and> forward_to_sse (json_loads cpython) (utext ''http://localhost:8080/api/sse'')
       (\<lambda>q. Inr \<lparr>status = 200, content_type = None,
                body_text = (case req_json q of
                               Some j \<Rightarrow> utext ''json body''
                             | None \<Rightarrow> (case req_data q of
                                          Some t \<Rightarrow> utext ''text body: '' @ t
                                        | None \<Rightarrow> utext ''no body'')),
                content = []\<rparr>)
       \<lparr>ws_closed = False, ws_sent = []\<rparr> (utext ''hello'') =
     (Inr (), \<lparr>ws_closed = False, ws_sent = [TextFrame (utext ''text body: hello'')]\<rparr>)
   \<and> forward_to_sse (json_loads cpython) (utext ''http://localhost:8080/api/sse'')
       (\<lambda>q. Inr \<lparr>status = 200, content_type = None,
                body_text = (case req_json q of
                               Some j \<Rightarrow> utext ''json body''
                             | None \<Rightarrow> (case req_data q of
                                          Some t \<Rightarrow> utext ''text body: '' @ t
                                        | None \<Rightarrow> utext ''no body'')),
                content = []\<rparr>)
       \<lparr>ws_closed = False, ws_sent = []\<rparr> (utext ''"hi"'') =
     (Inr (), \<lparr>ws_closed = False, ws_sent = [TextFrame (utext ''text body: hi'')]\<rparr>)\<close>
proof -
  have a: \<open>decode_payload (json_loads cpython) (utext ''{"a":1}'') =
           Inr (JObject [(utext ''a'', JInt 1)])\<close>
    by (simp add: decode_payload_def loads_object [simplified])
  show ?thesis
    using
      forward_request_body [of "json_loads cpython" \<open>utext ''{"a":1}''\<close> "utext ''http://localhost:8080/api/sse''"
        "(\<lambda>q. Inr \<lparr>status = 200, content_type = None,
                body_text = (case req_json q of
                               Some j \<Rightarrow> utext ''json body''
                             | None \<Rightarrow> (case req_data q of
                                          Some t \<Rightarrow> utext ''text body: '' @ t
                                        | None \<Rightarrow> utext ''no body'')),
                content = []\<rparr>)" "\<lparr>ws_closed = False, ws_sent = []\<rparr>"]
      forward_request_body [of "json_loads cpython" "utext ''hello''" "utext ''http://localhost:8080/api/sse''"
        "(\<lambda>q. Inr \<lparr>status = 200, content_type = None,
                body_text = (case req_json q of
                               Some j \<Rightarrow> utext ''json body''
                             | None \<Rightarrow> (case req_data q of
                                          Some t \<Rightarrow> utext ''text body: '' @ t
                                        | None \<Rightarrow> utext ''no body'')),
                content = []\<rparr>)" "\<lparr>ws_closed = False, ws_sent = []\<rparr>"]
      forward_request_body [of "json_loads cpython" \<open>utext ''"hi"''\<close> "utext ''http://localhost:8080/api/sse''"
        "(\<lambda>q. Inr \<lparr>status = 200, content_type = None,
                body_text = (case req_json q of
                               Some j \<Rightarrow> utext ''json body''
                             | None \<Rightarrow> (case req_data q of
                                          Some t \<Rightarrow> utext ''text body: '' @ t
                                        | None \<Rightarrow> utext ''no body'')),
                content = []\<rparr>)" "\<lparr>ws_closed = False, ws_sent = []\<rparr>"]
      a loads_object loads_hello loads_string
    by (simp add: post_def except_clauses_def handle_response_def send_str_def send_frame_def)
qed

text \<open>
  C10: for a text that decodes to a value that is neither an object nor a string (a list,
  a number, a boolean, null), \<open>_forward_to_sse\<close> posts the request with neither a JSON
  body nor a text body, and goes on with the answer to that request.
\<close>

theorem forward_empty_body:
  assumes "loads data = Done v"
    and "\<forall>d. v \<noteq> JObject d"
    and "\<forall>t. v \<noteq> JString t"
  shows "forward_to_sse loads sse_url upstream w data =
         except_clauses (post loads upstream w
           \<lparr>req_url = sse_url, req_json = None, req_data = None,
            req_headers = post_headers\<rparr>)"
  using assms
  by (cases v) (simp_all add: forward_to_sse_def decode_payload_def post_request_def)

theorem forward_empty_body_witness:
  "forward_to_sse (json_loads cpython) (utext ''http://localhost:8080/api/sse'')
       (\<lambda>q. Inr \<lparr>status = 200, content_type = None,
                body_text = (case req_json q of
                               Some j \<Rightarrow> utext ''json body''
                             | None \<Rightarrow> (case req_data q of
                                          Some t \<Rightarrow> utext ''text body: '' @ t
                                        | None \<Rightarrow> utext ''no body'')),
                content = []\<rparr>)
       \<lparr>ws_closed = False, ws_sent = []\<rparr> (utext ''true'') =
     (Inr (), \<lparr>ws_closed = False, ws_sent = [TextFrame (utext ''no body'')]\<rparr>)"
  using forward_empty_body [of "json_loads cpython" "utext ''true''" "JBool True" "utext ''http://localhost:8080/api/sse''"
      "(\<lambda>q. Inr \<lparr>status = 200, content_type = None,
                body_text = (case req_json q of
                               Some j \<Rightarrow> utext ''json body''
                             | None \<Rightarrow> (case req_data q of
                                          Some t \<Rightarrow> utext ''text body: '' @ t
                                        | None \<Rightarrow> utext ''no body'')),
                content = []\<rparr>)" "\<lparr>ws_closed = False, ws_sent = []\<rparr>"] loads_true
  by (simp add: post_def except_clauses_def handle_response_def send_str_def send_frame_def)

subsection \<open>A response with a status other than 200 (C3)\<close>

text \<open>
  C3: when the upstream response has a status other than 200 and the connection is open,
  \<open>_forward_to_sse\<close> sends exactly one frame, the object with \<open>error\<close>, the status and
  the body text as \<open>message\<close>; the result depends neither on the content type nor on the
  streamed content. The witness is the response with status 500 and body \<open>boom\<close>.
\<close>

theorem forward_non_200:
  assumes "decode_payload loads data = Inr payload"
    and "upstream (post_request sse_url payload) = Inr r"
    and "status r \<noteq> 200"
    and "\<not> ws_closed w"
  shows "forward_to_sse loads sse_url upstream w data =
         (Inr (), w\<lparr>ws_sent := ws_sent w @
            [JsonFrame (JObject [(utext ''error'', JBool True),
                                 (utext ''status'', JInt (status r)),
                                 (utext ''message'', JString (body_text r))])]\<rparr>)"
  using assms
  by (simp add: forward_to_sse_def post_def except_clauses_def handle_response_def
      send_json_def send_frame_def status_error_frame_def)

theorem forward_non_200_witness:
  "forward_to_sse (json_loads cpython) (utext ''http://localhost:8080/api/sse'')
     (\<lambda>q. Inr \<lparr>status = 500, content_type = Some (utext ''text/event-stream''),
                body_text = utext ''boom'',
                content = [Chunk (ubytes ''data: x\<newline>\<newline>'')]\<rparr>)
     \<lparr>ws_closed = False, ws_sent = []\<rparr> (utext ''hello'') =
   (Inr (), \<lparr>ws_closed = False,
             ws_sent = [JsonFrame (JObject [(utext ''error'', JBool True),
                                            (utext ''status'', JInt 500),
                                            (utext ''message'', JString (utext ''boom''))])]\<rparr>)"
proof -
  have a: "decode_payload (json_loads cpython) (utext ''hello'') = Inr (JString (utext ''hello''))"
    by (simp add: decode_payload_def loads_hello [simplified])
  show ?thesis
    using forward_non_200 [of "json_loads cpython" "utext ''hello''" "JString (utext ''hello'')"
      "\<lambda>q. Inr \<lparr>status = 500, content_type = Some (utext ''text/event-stream''),
                body_text = utext ''boom'',
                content = [Chunk (ubytes ''data: x\<newline>\<newline>'')]\<rparr>"
      "utext ''http://localhost:8080/api/sse''"
      "\<lparr>status = 500, content_type = Some (utext ''text/event-stream''),
        body_text = utext ''boom'', content = [Chunk (ubytes ''data: x\<newline>\<newline>'')]\<rparr>"
      "\<lparr>ws_closed = False, ws_sent = []\<rparr>"] a
    by simp
qed


subsection \<open>The event parser (C5, C6)\<close>




text \<open>
  C6: a block in which no field and no data line was set gives no Event; in particular a
  block whose lines are all blank or comments.
\<close>

theorem parse_sse_event_discards:
  "(fst (parse_lines block) = [] \<and> snd (parse_lines block) = [] \<longrightarrow>
      parse_sse_event loads block = Inr None)
   \<and> ((\<forall>l \<in> set (split_nl block). strip l = [] \<or> startswith (strip l) (utext '':'')) \<longrightarrow>
      parse_sse_event loads block = Inr None)"
proof (intro conjI impI)
  assume "fst (parse_lines block) = [] \<and> snd (parse_lines block) = []"
  then show "parse_sse_event loads block = Inr None"
    by (simp add: parse_sse_event_def event_or_none_def Let_def)
next
  assume "\<forall>l \<in> set (split_nl block). strip l = [] \<or> startswith (strip l) (utext '':'')"
  then have "parse_lines block = ([], [])"
    unfolding parse_lines_def by (rule foldl_parse_line_skip)
  then show "parse_sse_event loads block = Inr None"
    by (simp add: parse_sse_event_def event_or_none_def Let_def)
qed

theorem parse_sse_event_discards_witness:
  "fst (parse_lines (utext '': keep-alive\<newline>\<newline>  : second comment\<newline>'')) = []
   \<and> snd (parse_lines (utext '': keep-alive\<newline>\<newline>  : second comment\<newline>'')) = []
   \<and> parse_sse_event (json_loads cpython) (utext '': keep-alive\<newline>\<newline>  : second comment\<newline>'')
       = Inr None"
proof -
  have a: "\<forall>l \<in> set (split_nl (utext '': keep-alive\<newline>\<newline>  : second comment\<newline>'')).
      strip l = [] \<or> startswith (strip l) (utext '':'')"
    by (simp add: strip_def isspace_def startswith_def)
  have b: "parse_lines (utext '': keep-alive\<newline>\<newline>  : second comment\<newline>'') = ([], [])"
    by (simp add: event_eval)
  show ?thesis
    using parse_sse_event_discards
      [of "utext '': keep-alive\<newline>\<newline>  : second comment\<newline>''" "json_loads cpython"] a b
    by simp
qed

subsection \<open>The end of the body and the decoding of a chunk (C7, C8)\<close>

text \<open>
  The invariance of lemma \<open>chunking_invariance\<close> at a body of ASCII bytes cut inside a
  delimiter and inside a field name.
\<close>

lemma chunking_invariance_example:
  "handle_sse_stream (json_loads cpython) \<lparr>ws_closed = False, ws_sent = []\<rparr>
     (map Chunk [ubytes ''data: 1\<newline>'', ubytes ''\<newline>da'', ubytes ''ta: 2\<newline>\<newline>'']) =
   handle_sse_stream (json_loads cpython) \<lparr>ws_closed = False, ws_sent = []\<rparr>
     [Chunk (concat [ubytes ''data: 1\<newline>'', ubytes ''\<newline>da'', ubytes ''ta: 2\<newline>\<newline>''])]"
  by (rule chunking_invariance) (simp_all add: decode_utf8_def)

text \<open>
  C7, the claim as stated fails: a remainder that holds only a comment is not blank, and
  no Event is sent for it.
\<close>

theorem comment_remainder_counterexample:
  "stream_loop (json_loads cpython) \<lparr>ws_closed = False, ws_sent = []\<rparr> [] [Chunk (ubytes '': ping'')] =
     (Inr (utext '': ping''), \<lparr>ws_closed = False, ws_sent = []\<rparr>)
   \<and> strip (utext '': ping'') \<noteq> []
   \<and> handle_sse_stream (json_loads cpython) \<lparr>ws_closed = False, ws_sent = []\<rparr> [Chunk (ubytes '': ping'')] =
     (Inr (), \<lparr>ws_closed = False, ws_sent = []\<rparr>)"
  by (simp add: stream_eval event_eval)

text \<open>
  C7, amended: when the body is exhausted and the connection is open, the remainder of
  the buffer is parsed as one block and the Event it gives, if it gives one, is sent as
  the one last frame; a remainder that is empty or only whitespace gives no Event.
\<close>

theorem final_remainder_event:
  assumes "stream_loop loads w [] items = (Inr buffer, w')"
    and "\<not> ws_closed w'"
  shows "handle_sse_stream loads w items =
           (case parse_sse_event loads buffer of
              Inl e \<Rightarrow> (Inl e, w')
            | Inr None \<Rightarrow> (Inr (), w')
            | Inr (Some ev) \<Rightarrow>
                (Inr (), w'\<lparr>ws_sent := ws_sent w' @ [JsonFrame (JObject ev)]\<rparr>))
         \<and> (strip buffer = [] \<longrightarrow> parse_sse_event loads buffer = Inr None)"
  using assms
  by (simp add: handle_sse_stream_def parse_sse_event_def send_json_def send_frame_def
      split: sum.splits option.splits)

theorem final_remainder_event_witness:
  "handle_sse_stream (json_loads cpython) \<lparr>ws_closed = False, ws_sent = []\<rparr>
     [Chunk (ubytes ''data: 1\<newline>\<newline>data: x'')] =
   (Inr (), \<lparr>ws_closed = False,
             ws_sent = [JsonFrame (JObject [(utext ''data'', JInt 1)]),
                        JsonFrame (JObject [(utext ''data'', JString (utext ''x''))])]\<rparr>)
   \<and> handle_sse_stream (json_loads cpython) \<lparr>ws_closed = False, ws_sent = []\<rparr>
     [Chunk (ubytes ''data: 1\<newline>\<newline> \<newline>'')] =
   (Inr (), \<lparr>ws_closed = False,
             ws_sent = [JsonFrame (JObject [(utext ''data'', JInt 1)])]\<rparr>)"
proof -
  have a: "stream_loop (json_loads cpython) \<lparr>ws_closed = False, ws_sent = []\<rparr> []
             [Chunk (ubytes ''data: 1\<newline>\<newline>data: x'')] =
           (Inr (utext ''data: x''),
            \<lparr>ws_closed = False, ws_sent = [JsonFrame (JObject [(utext ''data'', JInt 1)])]\<rparr>)"
    by (simp add: stream_eval event_eval loads_1 [simplified])
  have b: "stream_loop (json_loads cpython) \<lparr>ws_closed = False, ws_sent = []\<rparr> []
             [Chunk (ubytes ''data: 1\<newline>\<newline> \<newline>'')] =
           (Inr (utext '' \<newline>''),
            \<lparr>ws_closed = False, ws_sent = [JsonFrame (JObject [(utext ''data'', JInt 1)])]\<rparr>)"
    by (simp add: stream_eval event_eval loads_1 [simplified])
  have c: "parse_sse_event (json_loads cpython) (utext ''data: x'') =
           Inr (Some [(utext ''data'', JString (utext ''x''))])"
    by (simp add: event_eval loads_x [simplified])
  have d: "strip (utext '' \<newline>'') = []"
    by (simp add: strip_def isspace_def)
  show ?thesis
    using final_remainder_event [OF a] final_remainder_event [OF b] c d
    by simp
qed

text \<open>
  C8, the claim as stated fails: the chunk is decoded with \<open>errors="ignore"\<close>, so an
  invalid byte is dropped, where \<open>errors="replace"\<close> puts U+FFFD: of the bytes
  \<open>a\<close>, 0xFF, \<open>b\<close> the buffer keeps \<open>ab\<close>.
\<close>

theorem invalid_bytes_counterexample:
  "decode_utf8 Replace [97, 255, 98] = [97, 65533, 98]
   \<and> stream_loop (json_loads cpython) \<lparr>ws_closed = False, ws_sent = []\<rparr> [] [Chunk [97, 255, 98]] =
     (Inr [97, 98], \<lparr>ws_closed = False, ws_sent = []\<rparr>)"
  by (simp add: stream_eval)

text \<open>
  C8, amended: while the connection is open, every chunk is decoded as UTF-8 with the
  bytes of invalid sequences dropped, nothing standing in their place, and the decoded
  text is appended to the buffer before the buffer is searched for delimiters: the
  decoded text is the code points of the valid sequences in order, ASCII bytes decode
  to themselves, and a buffer without delimiter is the old buffer followed by the
  decoded text. Decoding is a total function: it does not fail.
\<close>

theorem chunk_decoded_and_appended:
  "(\<not> ws_closed w \<longrightarrow>
      stream_loop loads w buffer (Chunk chunk # items) =
        (case drain loads w (buffer @ decode_utf8 Ignore chunk) of
           (Inl e, w') \<Rightarrow> (Inl e, w')
         | (Inr r, w') \<Rightarrow> stream_loop loads w' r items))
   \<and> (\<not> ws_closed w \<and> split_nn (buffer @ decode_utf8 Ignore chunk) = None \<longrightarrow>
      stream_loop loads w buffer [Chunk chunk] = (Inr (buffer @ decode_utf8 Ignore chunk), w))
   \<and> decode_utf8 Ignore chunk =
       concat (map (\<lambda>t. case t of Some c \<Rightarrow> [c] | None \<Rightarrow> []) (utf8_scan (map unat chunk)))
   \<and> ((\<forall>b \<in> set chunk. b < 128) \<longrightarrow> decode_utf8 Ignore chunk = map unat chunk)"
proof (intro conjI impI)
  assume "\<not> ws_closed w"
  then show "stream_loop loads w buffer (Chunk chunk # items) =
        (case drain loads w (buffer @ decode_utf8 Ignore chunk) of
           (Inl e, w') \<Rightarrow> (Inl e, w')
         | (Inr r, w') \<Rightarrow> stream_loop loads w' r items)"
    by simp
next
  assume "\<not> ws_closed w \<and> split_nn (buffer @ decode_utf8 Ignore chunk) = None"
  then show "stream_loop loads w buffer [Chunk chunk] =
             (Inr (buffer @ decode_utf8 Ignore chunk), w)"
    by (simp add: drain_None)
next
  show "decode_utf8 Ignore chunk =
       concat (map (\<lambda>t. case t of Some c \<Rightarrow> [c] | None \<Rightarrow> []) (utf8_scan (map unat chunk)))"
    by (simp add: decode_utf8_def cong: option.case_cong)
next
  assume "\<forall>b \<in> set chunk. b < 128"
  then show "decode_utf8 Ignore chunk = map unat chunk"
    by (rule decode_utf8_ascii)
qed

theorem chunk_decoded_and_appended_witness:
  "stream_loop (json_loads cpython) \<lparr>ws_closed = False, ws_sent = []\<rparr> (utext ''da'')
     [Chunk (ubytes ''ta: x'')] =
   (Inr (utext ''data: x''), \<lparr>ws_closed = False, ws_sent = []\<rparr>)
   \<and> decode_utf8 Ignore (ubytes ''ta: x'') = utext ''ta: x''"
proof -
  note inst = chunk_decoded_and_appended [of "\<lparr>ws_closed = False, ws_sent = []\<rparr>" "json_loads cpython"
        "utext ''da''" "ubytes ''ta: x''" "[]"]
  have a: "\<forall>b \<in> set (ubytes ''ta: x''). b < 128"
    by simp
  have o: "\<not> ws_closed \<lparr>ws_closed = False, ws_sent = []\<rparr>"
    by simp
  have b: "decode_utf8 Ignore (ubytes ''ta: x'') = utext ''ta: x''"
    using inst a by simp
  have c: "split_nn (utext ''da'' @ decode_utf8 Ignore (ubytes ''ta: x'')) = None"
    unfolding b by simp
  have s: "stream_loop (json_loads cpython) \<lparr>ws_closed = False, ws_sent = []\<rparr> (utext ''da'')
             [Chunk (ubytes ''ta: x'')] =
           (Inr (utext ''da'' @ decode_utf8 Ignore (ubytes ''ta: x'')), \<lparr>ws_closed = False, ws_sent = []\<rparr>)"
    using inst o c by blast
  show ?thesis
    unfolding s b by simp
qed

end
